theory Spec2Isabelle
  imports Main "HOL-Library.Word"
begin

section \<open>The Robinhood crypto client (src/src/robinhood.ts)\<close>

text \<open>
  The client signs every request and hands it to \<^verbatim>\<open>fetch\<close>. Strings are modelled
  as \<open>string\<close>: the sequence of their UTF-8 bytes, so that the template literals of the
  source are list concatenation and \<^verbatim>\<open>Buffer.from(message)\<close> is the string read as
  bytes. A \<^verbatim>\<open>Uint8Array\<close> is a list of 8-bit words. An optional argument is an
  \<open>option\<close>, \<open>None\<close> being \<^verbatim>\<open>undefined\<close>.
\<close>

type_synonym bytes = "8 word list"

subsection \<open>Built-ins of the language\<close>

text \<open>\<^verbatim>\<open>Array.prototype.join\<close> on an array of strings.\<close>

fun join :: "string \<Rightarrow> string list \<Rightarrow> string" where
  "join sep [] = []"
| "join sep [x] = x"
| "join sep (x # y # ys) = x @ sep @ join sep (y # ys)"

text \<open>\<^verbatim>\<open>Number.prototype.toString\<close> on a non-negative integer: its decimal digits.\<close>

definition digit_char :: "nat \<Rightarrow> char" where
  "digit_char d = char_of (48 + d)"

function show_nat :: "nat \<Rightarrow> string" where
  "show_nat n = (if n < 10 then [digit_char n] else show_nat (n div 10) @ [digit_char (n mod 10)])"
  by pat_completeness auto
termination
  by (relation "measure id") auto

declare show_nat.simps [simp del]

subsection \<open>Base64, as \<^verbatim>\<open>Buffer\<close> reads and writes it\<close>

text \<open>
  \<^verbatim>\<open>Buffer.from(s, "base64")\<close> never throws. Its decoder accepts the standard and the
  URL-safe alphabet, skips every character outside of them, stops at the first
  \<^verbatim>\<open>=\<close>, and turns the sextets it has read into bytes: three for every four, and
  one or two for a final group of two or three.
\<close>

definition unbase64 :: "char \<Rightarrow> nat option" where
  "unbase64 c =
     (let n = (of_char c :: nat) in
      if 65 \<le> n \<and> n \<le> 90 then Some (n - 65)
      else if 97 \<le> n \<and> n \<le> 122 then Some (n - 71)
      else if 48 \<le> n \<and> n \<le> 57 then Some (n + 4)
      else if n = 43 \<or> n = 45 then Some 62
      else if n = 47 \<or> n = 95 then Some 63
      else None)"

definition sextets :: "string \<Rightarrow> nat list" where
  "sextets s = List.map_filter unbase64 (takeWhile (\<lambda>c. c \<noteq> CHR ''='') s)"

fun sextets_to_bytes :: "nat list \<Rightarrow> bytes" where
  "sextets_to_bytes (a # b # c # d # rest) =
     [of_nat (a * 4 + b div 16), of_nat ((b mod 16) * 16 + c div 4), of_nat ((c mod 4) * 64 + d)]
       @ sextets_to_bytes rest"
| "sextets_to_bytes [a, b, c] = [of_nat (a * 4 + b div 16), of_nat ((b mod 16) * 16 + c div 4)]"
| "sextets_to_bytes [a, b] = [of_nat (a * 4 + b div 16)]"
| "sextets_to_bytes [a] = []"
| "sextets_to_bytes [] = []"

definition base64_decode :: "string \<Rightarrow> bytes" where
  "base64_decode s = sextets_to_bytes (sextets s)"

text \<open>\<^verbatim>\<open>buf.toString("base64")\<close>: the standard alphabet, padded with \<^verbatim>\<open>=\<close>.\<close>

definition base64_char :: "nat \<Rightarrow> char" where
  "base64_char n =
     (if n < 26 then char_of (65 + n)
      else if n < 52 then char_of (71 + n)
      else if n < 62 then char_of (n - 4)
      else if n = 62 then CHR ''+'' else CHR ''/'')"

fun base64_encode :: "bytes \<Rightarrow> string" where
  "base64_encode (a # b # c # rest) =
     [base64_char (unat a div 4), base64_char ((unat a mod 4) * 16 + unat b div 16),
      base64_char ((unat b mod 16) * 4 + unat c div 64), base64_char (unat c mod 64)]
       @ base64_encode rest"
| "base64_encode [a, b] =
     [base64_char (unat a div 4), base64_char ((unat a mod 4) * 16 + unat b div 16),
      base64_char ((unat b mod 16) * 4), CHR ''='']"
| "base64_encode [a] =
     [base64_char (unat a div 4), base64_char ((unat a mod 4) * 16), CHR ''='', CHR ''='']"
| "base64_encode [] = []"

subsection \<open>Errors, requests and responses\<close>

text \<open>
  A thrown value is an error object of one of three classes: the plain \<^verbatim>\<open>Error\<close>
  that tweetnacl and \<^verbatim>\<open>makeRequest\<close> construct, the \<^verbatim>\<open>TypeError\<close> with which
  \<^verbatim>\<open>fetch\<close> rejects when the call does not complete, and the \<^verbatim>\<open>SyntaxError\<close>
  with which \<^verbatim>\<open>response.json()\<close> rejects. Each carries its message.
\<close>

datatype js_error = Error string | TypeError string | SyntaxError string

record request =
  url :: string
  http_method :: string
  headers :: "(string \<times> string) list"
  body :: "string option"

text \<open>
  Of a response the client reads \<^verbatim>\<open>status\<close>, \<^verbatim>\<open>ok\<close> (the status is in
  200..299) and the outcome of \<^verbatim>\<open>json()\<close>: the parsed body or the rejection.
\<close>

record 'j response =
  status :: nat
  json :: "js_error + 'j"

definition ok :: "'j response \<Rightarrow> bool" where
  "ok r = (200 \<le> status r \<and> status r \<le> 299)"

datatype 'j fetch_outcome = Rejected js_error | Resolved "'j response"

text \<open>What a call does to the outside: it calls \<^verbatim>\<open>fetch\<close> and it logs.\<close>

datatype effect = FetchCall request | ConsoleError js_error

fun fetch_calls :: "effect list \<Rightarrow> request list" where
  "fetch_calls [] = []"
| "fetch_calls (FetchCall r # es) = r # fetch_calls es"
| "fetch_calls (ConsoleError e # es) = fetch_calls es"

subsection \<open>The environment of a call\<close>

text \<open>
  The libraries are parameters: \<open>ed25519\<close> is the detached signature that
  \<^verbatim>\<open>nacl.sign.detached\<close> computes from the message bytes and the 64-byte secret key,
  and the three operations on numbers (IEEE doubles of type \<open>'n\<close>) are
  \<^verbatim>\<open>ToString\<close>, \<^verbatim>\<open>ToBoolean\<close> and \<^verbatim>\<open>isFinite\<close>.
\<close>

record 'n runtime =
  ed25519 :: "bytes \<Rightarrow> bytes \<Rightarrow> bytes"
  number_toString :: "'n \<Rightarrow> string"
  number_toBoolean :: "'n \<Rightarrow> bool"
  number_isFinite :: "'n \<Rightarrow> bool"

text \<open>
  The world as one call meets it: the clock \<^verbatim>\<open>Date.now()\<close> in milliseconds, the
  identifier that \<^verbatim>\<open>uuidv4()\<close> returns, and what \<^verbatim>\<open>fetch\<close> yields for a request.
\<close>

record 'j world =
  date_now :: nat
  uuidv4 :: string
  fetch :: "request \<Rightarrow> 'j fetch_outcome"

subsection \<open>Configuration and signing\<close>

record RobinhoodConfig =
  privateKeyBase64 :: string
  publicKeyBase64 :: string
  apiKey :: string

definition baseUrl :: string where
  "baseUrl = ''https://trading.robinhood.com''"

record key_pair =
  publicKey :: bytes
  secretKey :: bytes

text \<open>\<^verbatim>\<open>nacl.sign.keyPair.fromSecretKey\<close>: a secret key has 64 bytes, the public key is its second half.\<close>

definition fromSecretKey :: "bytes \<Rightarrow> js_error + key_pair" where
  "fromSecretKey sk =
     (if length sk \<noteq> 64 then Inl (Error ''bad secret key size'')
      else Inr \<lparr>publicKey = drop 32 sk, secretKey = sk\<rparr>)"

text \<open>\<^verbatim>\<open>nacl.sign.detached\<close> checks the size of the key again before it signs.\<close>

definition sign_detached :: "'n runtime \<Rightarrow> bytes \<Rightarrow> bytes \<Rightarrow> js_error + bytes" where
  "sign_detached R msg sk =
     (if length sk \<noteq> 64 then Inl (Error ''bad secret key size'')
      else Inr (ed25519 R msg sk))"

definition utf8_bytes :: "string \<Rightarrow> bytes" where
  "utf8_bytes s = map of_char s"

text \<open>The message to sign, line 85 of the source.\<close>

definition canonical_message :: "string \<Rightarrow> string \<Rightarrow> string \<Rightarrow> string \<Rightarrow> string \<Rightarrow> string" where
  "canonical_message key timestamp path method body' = key @ timestamp @ path @ method @ body'"

record signed_request =
  timestamp :: string
  signatureBase64 :: string

definition signRequest ::
  "'n runtime \<Rightarrow> 'j world \<Rightarrow> RobinhoodConfig \<Rightarrow> string \<Rightarrow> string \<Rightarrow> string \<Rightarrow> js_error + signed_request"
where
  "signRequest R w config path method body' =
     (let timestamp = show_nat (date_now w div 1000);
          privateKeyBytes = base64_decode (privateKeyBase64 config);
          publicKeyBytes = base64_decode (publicKeyBase64 config)
      in case fromSecretKey privateKeyBytes of
           Inl e \<Rightarrow> Inl e
         | Inr signingKey \<Rightarrow>
             (let message = canonical_message (apiKey config) timestamp path method body'
              in case sign_detached R (utf8_bytes message) (secretKey signingKey) of
                   Inl e \<Rightarrow> Inl e
                 | Inr signature \<Rightarrow>
                     Inr \<lparr>timestamp = timestamp, signatureBase64 = base64_encode signature\<rparr>))"

subsection \<open>The dispatcher\<close>

text \<open>
  The result of a call is what the promise settles with (\<open>Inl\<close> the rejection) and the
  effects in the order they happen. A rejection of \<^verbatim>\<open>response.json()\<close> is returned,
  not awaited, inside \<^verbatim>\<open>try\<close>, so it is not logged.
\<close>

type_synonym 'j outcome = "(js_error + 'j) \<times> effect list"

text \<open>Lines 109 to 123: the headers and the options of the call, with the address.\<close>

definition requestOptions ::
  "RobinhoodConfig \<Rightarrow> signed_request \<Rightarrow> string \<Rightarrow> string \<Rightarrow> string \<Rightarrow> request"
where
  "requestOptions config sg path method body' =
     \<lparr>url = baseUrl @ path,
      http_method = method,
      headers = [(''Content-Type'', ''application/json''),
                 (''x-api-key'', apiKey config),
                 (''x-timestamp'', timestamp sg),
                 (''x-signature'', signatureBase64 sg)],
      body = (if body' \<noteq> [] then Some body' else None)\<rparr>"

text \<open>The message of the error thrown for a status that is not a success.\<close>

definition http_error :: "nat \<Rightarrow> js_error" where
  "http_error st = Error (''HTTP error! status: '' @ show_nat st)"

definition makeRequest ::
  "'n runtime \<Rightarrow> 'j world \<Rightarrow> RobinhoodConfig \<Rightarrow> string \<Rightarrow> string \<Rightarrow> string option \<Rightarrow> 'j outcome"
where
  "makeRequest R w config path method body_arg =
     (let body' = (case body_arg of None \<Rightarrow> [] | Some b \<Rightarrow> b)
      in case signRequest R w config path method body' of
           Inl e \<Rightarrow> (Inl e, [])
         | Inr sg \<Rightarrow>
             (let req = requestOptions config sg path method body'
              in case fetch w req of
                   Rejected error \<Rightarrow> (Inl error, [FetchCall req, ConsoleError error])
                 | Resolved response \<Rightarrow>
                     if \<not> ok response
                     then (let error = http_error (status response)
                           in (Inl error, [FetchCall req, ConsoleError error]))
                     else (json response, [FetchCall req])))"

subsection \<open>JSON bodies\<close>

text \<open>
  The objects the client serialises hold strings, numbers, nested objects and
  \<^verbatim>\<open>undefined\<close> for an optional field that is absent by value. An object is the list
  of its own enumerable properties in the order \<^verbatim>\<open>Object.entries\<close> gives them.
\<close>

datatype 'n jsvalue = Undefined | Str string | Num 'n | Obj "(string \<times> 'n jsvalue) list"

type_synonym 'n jsobject = "(string \<times> 'n jsvalue) list"

text \<open>
  Defining a property in an object literal: a key the object already has keeps its place
  and takes the new value, a new key goes to the end.
\<close>

fun define_property :: "'n jsobject \<Rightarrow> string \<times> 'n jsvalue \<Rightarrow> 'n jsobject" where
  "define_property [] (k, v) = [(k, v)]"
| "define_property ((k', v') # ps) (k, v) =
     (if k' = k then (k, v) # ps else (k', v') # define_property ps (k, v))"

text \<open>The literal \<^verbatim>\<open>{...order, client_order_id: id}\<close>.\<close>

definition spread_with :: "'n jsobject \<Rightarrow> string \<Rightarrow> 'n jsvalue \<Rightarrow> 'n jsobject" where
  "spread_with obj k v = foldl define_property [] (obj @ [(k, v)])"

text \<open>\<^verbatim>\<open>JSON.stringify\<close>: the quoting of a string.\<close>

definition hex_digit :: "nat \<Rightarrow> char" where
  "hex_digit d = (if d < 10 then char_of (48 + d) else char_of (87 + d))"

definition quote_char :: "char \<Rightarrow> string" where
  "quote_char c =
     (let n = (of_char c :: nat) in
      if n = 34 then [CHR 0x5C, CHR 0x22]
      else if n = 92 then [CHR 0x5C, CHR 0x5C]
      else if n = 8 then [CHR 0x5C, CHR ''b'']
      else if n = 12 then [CHR 0x5C, CHR ''f'']
      else if n = 10 then [CHR 0x5C, CHR ''n'']
      else if n = 13 then [CHR 0x5C, CHR ''r'']
      else if n = 9 then [CHR 0x5C, CHR ''t'']
      else if n < 32 then [CHR 0x5C, CHR ''u'', CHR ''0'', CHR ''0'', hex_digit (n div 16), hex_digit (n mod 16)]
      else [c])"

definition quote :: "string \<Rightarrow> string" where
  "quote s = [CHR 0x22] @ concat (map quote_char s) @ [CHR 0x22]"

text \<open>
  \<^verbatim>\<open>JSON.stringify\<close> of a value is \<open>None\<close> for \<^verbatim>\<open>undefined\<close>; an object leaves
  out the properties whose value serialises to \<^verbatim>\<open>undefined\<close>; a number that is not
  finite is written \<^verbatim>\<open>null\<close>.
\<close>

fun serialize :: "'n runtime \<Rightarrow> 'n jsvalue \<Rightarrow> string option"
  and members :: "'n runtime \<Rightarrow> 'n jsobject \<Rightarrow> string list"
where
  "serialize R Undefined = None"
| "serialize R (Str s) = Some (quote s)"
| "serialize R (Num n) = Some (if number_isFinite R n then number_toString R n else ''null'')"
| "serialize R (Obj ps) = Some (''{'' @ join '','' (members R ps) @ ''}'')"
| "members R [] = []"
| "members R ((k, v) # ps) =
     (case serialize R v of
        None \<Rightarrow> members R ps
      | Some s \<Rightarrow> (quote k @ '':'' @ s) # members R ps)"

definition JSON_stringify :: "'n runtime \<Rightarrow> 'n jsobject \<Rightarrow> string" where
  "JSON_stringify R obj = ''{'' @ join '','' (members R obj) @ ''}''"

subsection \<open>The operations\<close>

text \<open>Market data.\<close>

definition getBestBidAsk ::
  "'n runtime \<Rightarrow> 'j world \<Rightarrow> RobinhoodConfig \<Rightarrow> string list option \<Rightarrow> 'j outcome"
where
  "getBestBidAsk R w config symbols_arg =
     (let symbols = (case symbols_arg of None \<Rightarrow> [''BTC-USD''] | Some ss \<Rightarrow> ss);
          queryString = join ''&'' (map (\<lambda>s. ''symbol='' @ s) symbols)
      in makeRequest R w config (''/api/v1/crypto/marketdata/best_bid_ask/?'' @ queryString) ''GET'' None)"

definition getEstimatedPrice ::
  "'n runtime \<Rightarrow> 'j world \<Rightarrow> RobinhoodConfig \<Rightarrow> string \<Rightarrow> string \<Rightarrow> 'n list \<Rightarrow> 'j outcome"
where
  "getEstimatedPrice R w config symbol side quantities =
     (let queryString = ''symbol='' @ symbol @ ''&side='' @ side @ ''&quantity=''
                          @ join '','' (map (number_toString R) quantities)
      in makeRequest R w config (''/api/v1/crypto/marketdata/estimated_price/?'' @ queryString) ''GET'' None)"

text \<open>
  Trading pairs. A condition \<^verbatim>\<open>if (limit)\<close> on an optional number holds when the
  argument is given and \<^verbatim>\<open>ToBoolean\<close> of it is true; \<^verbatim>\<open>if (cursor)\<close> on an optional
  string when it is given and not empty.
\<close>

definition getTradingPairs ::
  "'n runtime \<Rightarrow> 'j world \<Rightarrow> RobinhoodConfig \<Rightarrow> string list option \<Rightarrow> 'n option \<Rightarrow> string option
     \<Rightarrow> 'j outcome"
where
  "getTradingPairs R w config symbols_arg limit cursor =
     (let symbols = (case symbols_arg of None \<Rightarrow> [''BTC-USD''] | Some ss \<Rightarrow> ss);
          queryString = join ''&'' (map (\<lambda>s. ''symbol='' @ s) symbols);
          queryString = (case limit of
                           None \<Rightarrow> queryString
                         | Some n \<Rightarrow>
                             if number_toBoolean R n
                             then queryString @ ''&limit='' @ number_toString R n
                             else queryString);
          queryString = (case cursor of
                           None \<Rightarrow> queryString
                         | Some c \<Rightarrow>
                             if c \<noteq> [] then queryString @ ''&cursor='' @ c else queryString)
      in makeRequest R w config (''/api/v1/crypto/trading/trading_pairs/?'' @ queryString) ''GET'' None)"

text \<open>Orders.\<close>

definition placeOrder ::
  "'n runtime \<Rightarrow> 'j world \<Rightarrow> RobinhoodConfig \<Rightarrow> 'n jsobject \<Rightarrow> 'j outcome"
where
  "placeOrder R w config order =
     (let payload = spread_with order ''client_order_id'' (Str (uuidv4 w))
      in makeRequest R w config ''/api/v1/crypto/trading/orders/'' ''POST''
           (Some (JSON_stringify R payload)))"

definition getOrder :: "'n runtime \<Rightarrow> 'j world \<Rightarrow> RobinhoodConfig \<Rightarrow> string \<Rightarrow> 'j outcome" where
  "getOrder R w config orderId =
     makeRequest R w config (''/api/v1/crypto/trading/orders/'' @ orderId @ ''/'') ''GET'' None"

definition cancelOrder :: "'n runtime \<Rightarrow> 'j world \<Rightarrow> RobinhoodConfig \<Rightarrow> string \<Rightarrow> 'j outcome" where
  "cancelOrder R w config orderId =
     makeRequest R w config (''/api/v1/crypto/trading/orders/'' @ orderId @ ''/cancel/'') ''POST'' None"

text \<open>
  The filters of \<^verbatim>\<open>getOrders\<close> are an object whose values are strings, or
  \<^verbatim>\<open>undefined\<close> (\<open>None\<close>): the entries in the order of \<^verbatim>\<open>Object.entries\<close>.
\<close>

type_synonym OrderFilters = "(string \<times> string option) list"

fun push_filters :: "string list \<Rightarrow> OrderFilters \<Rightarrow> string list" where
  "push_filters queryParams [] = queryParams"
| "push_filters queryParams ((key, val) # rest) =
     push_filters
       (case val of
          None \<Rightarrow> queryParams
        | Some v \<Rightarrow> if v \<noteq> [] then queryParams @ [key @ ''='' @ v] else queryParams)
       rest"

definition getOrders ::
  "'n runtime \<Rightarrow> 'j world \<Rightarrow> RobinhoodConfig \<Rightarrow> OrderFilters option \<Rightarrow> 'n option \<Rightarrow> string option
     \<Rightarrow> 'j outcome"
where
  "getOrders R w config filters limit cursor =
     (let queryParams = [];
          queryParams = (case filters of None \<Rightarrow> queryParams | Some fs \<Rightarrow> push_filters queryParams fs);
          queryParams = (case limit of
                           None \<Rightarrow> queryParams
                         | Some n \<Rightarrow>
                             if number_toBoolean R n
                             then queryParams @ [''limit='' @ number_toString R n]
                             else queryParams);
          queryParams = (case cursor of
                           None \<Rightarrow> queryParams
                         | Some c \<Rightarrow>
                             if c \<noteq> [] then queryParams @ [''cursor='' @ c] else queryParams);
          queryString = (if length queryParams > 0 then ''?'' @ join ''&'' queryParams else [])
      in makeRequest R w config (''/api/v1/crypto/trading/orders/'' @ queryString) ''GET'' None)"

text \<open>Account.\<close>

definition getAccount :: "'n runtime \<Rightarrow> 'j world \<Rightarrow> RobinhoodConfig \<Rightarrow> 'j outcome" where
  "getAccount R w config = makeRequest R w config ''/api/v1/crypto/trading/accounts/'' ''GET'' None"

text \<open>Holdings.\<close>

definition getHoldings ::
  "'n runtime \<Rightarrow> 'j world \<Rightarrow> RobinhoodConfig \<Rightarrow> string list option \<Rightarrow> 'n option \<Rightarrow> string option
     \<Rightarrow> 'j outcome"
where
  "getHoldings R w config assetCodes limit cursor =
     (let queryParams = [];
          queryParams = (case assetCodes of
                           None \<Rightarrow> queryParams
                         | Some codes \<Rightarrow> queryParams @ map (\<lambda>code. ''asset_code='' @ code) codes);
          queryParams = (case limit of
                           None \<Rightarrow> queryParams
                         | Some n \<Rightarrow>
                             if number_toBoolean R n
                             then queryParams @ [''limit='' @ number_toString R n]
                             else queryParams);
          queryParams = (case cursor of
                           None \<Rightarrow> queryParams
                         | Some c \<Rightarrow>
                             if c \<noteq> [] then queryParams @ [''cursor='' @ c] else queryParams);
          queryString = (if length queryParams > 0 then ''?'' @ join ''&'' queryParams else [])
      in makeRequest R w config (''/api/v1/crypto/trading/holdings/'' @ queryString) ''GET'' None)"

subsection \<open>Well-formed base64\<close>

text \<open>
  A string is well-formed base64 (RFC 4648) when its length is a multiple of four and it
  consists of characters of the standard alphabet followed by at most two \<^verbatim>\<open>=\<close>.
\<close>

definition base64_alphabet :: string where
  "base64_alphabet = ''ABCDEFGHIJKLMNOPQRSTUVWXYZabcdefghijklmnopqrstuvwxyz0123456789+/''"

definition valid_base64 :: "string \<Rightarrow> bool" where
  "valid_base64 s =
     (length s mod 4 = 0
      \<and> list_all (\<lambda>c. c \<in> set base64_alphabet) (takeWhile (\<lambda>c. c \<noteq> CHR ''='') s)
      \<and> dropWhile (\<lambda>c. c \<noteq> CHR ''='') s \<in> {[], ''='', ''==''})"

subsection \<open>Example inputs\<close>

text \<open>
  A runtime whose numbers are the integers, written in decimal, and whose signature
  function returns 64 bytes made from the message and the key.
\<close>

definition show_int :: "int \<Rightarrow> string" where
  "show_int i = (if i < 0 then ''-'' @ show_nat (nat (- i)) else show_nat (nat i))"

definition example_runtime :: "int runtime" where
  "example_runtime =
     \<lparr>ed25519 = (\<lambda>msg sk. take 64 (msg @ sk)),
      number_toString = show_int,
      number_toBoolean = (\<lambda>i. i \<noteq> 0),
      number_isFinite = (\<lambda>i. True)\<rparr>"

text \<open>A key of 64 zero bytes, and the same key with a character that is not base64.\<close>

definition example_key :: string where
  "example_key = replicate 86 CHR ''A'' @ ''==''"

definition example_bad_key :: string where
  "example_bad_key = CHR ''!'' # replicate 86 CHR ''A'' @ ''==''"

definition example_config :: RobinhoodConfig where
  "example_config = \<lparr>privateKeyBase64 = example_key, publicKeyBase64 = [], apiKey = ''key-1''\<rparr>"

text \<open>The configuration of the test suite: all three fields empty.\<close>

definition test_config :: RobinhoodConfig where
  "test_config = \<lparr>privateKeyBase64 = [], publicKeyBase64 = [], apiKey = []\<rparr>"

text \<open>A world whose server answers every request with the given status and body.\<close>

definition example_world :: "nat \<Rightarrow> string \<Rightarrow> string world" where
  "example_world st answer =
     \<lparr>date_now = 1700000000123,
      uuidv4 = ''9b2f6c1e-7a43-4d0b-8f5e-2c1a0d3e4f56'',
      fetch = (\<lambda>req. Resolved \<lparr>status = st, json = Inr answer\<rparr>)\<rparr>"

text \<open>A world in which the call does not complete.\<close>

definition offline_world :: "string world" where
  "offline_world =
     \<lparr>date_now = 1700000000123,
      uuidv4 = ''9b2f6c1e-7a43-4d0b-8f5e-2c1a0d3e4f56'',
      fetch = (\<lambda>req. Rejected (TypeError ''fetch failed''))\<rparr>"

text \<open>The market order of the test suite.\<close>

definition example_order :: "int jsobject" where
  "example_order =
     [(''side'', Str ''buy''), (''type'', Str ''market''), (''symbol'', Str ''DOGE-USD''),
      (''market_order_config'', Obj [(''asset_quantity'', Num 1)])]"

text \<open>An order object that brings a \<^verbatim>\<open>client_order_id\<close> of its own.\<close>

definition example_order_with_id :: "int jsobject" where
  "example_order_with_id =
     [(''symbol'', Str ''BTC-USD''), (''client_order_id'', Str ''my-own-id''), (''side'', Str ''buy''),
      (''type'', Str ''market''), (''market_order_config'', Obj [(''asset_quantity'', Num 1)])]"

text \<open>
  A runtime whose numbers are the integers and \<^verbatim>\<open>NaN\<close> (\<open>None\<close>), and an order with
  an optional field that is \<^verbatim>\<open>undefined\<close> and a quantity that is \<^verbatim>\<open>NaN\<close>.
\<close>

definition nan_runtime :: "int option runtime" where
  "nan_runtime =
     \<lparr>ed25519 = (\<lambda>msg sk. take 64 (msg @ sk)),
      number_toString = (\<lambda>x. case x of None \<Rightarrow> ''NaN'' | Some i \<Rightarrow> show_int i),
      number_toBoolean = (\<lambda>x. case x of None \<Rightarrow> False | Some i \<Rightarrow> i \<noteq> 0),
      number_isFinite = (\<lambda>x. x \<noteq> None)\<rparr>"

definition example_order_nan :: "int option jsobject" where
  "example_order_nan =
     [(''symbol'', Str ''BTC-USD''), (''side'', Str ''sell''), (''type'', Str ''limit''),
      (''market_order_config'', Undefined),
      (''limit_order_config'',
         Obj [(''quote_amount'', Undefined), (''asset_quantity'', Num None),
              (''limit_price'', Num (Some 250)), (''time_in_force'', Str ''gtc'')])]"

section \<open>Properties\<close>

subsection \<open>Keys, digits and the two outcomes of signing\<close>

lemma sextets_to_bytes_length: "length (sextets_to_bytes xs) = (length xs * 3) div 4"
  by (induction xs rule: sextets_to_bytes.induct) auto

lemma sextets_example_key: "sextets example_key = replicate 86 0"
  unfolding example_key_def sextets_def
  by (simp add: takeWhile_append map_filter_def unbase64_def)

lemma example_key_length: "length (base64_decode example_key) = 64"
  by (simp add: base64_decode_def sextets_to_bytes_length sextets_example_key)

lemma example_bad_key_length: "length (base64_decode example_bad_key) = 64"
  unfolding example_bad_key_def base64_decode_def sextets_to_bytes_length sextets_def
  by (simp add: takeWhile_append map_filter_def unbase64_def)

lemma test_key_length: "length (base64_decode []) = 0"
  by (simp add: base64_decode_def sextets_def map_filter_def)




lemma signRequest_bad_key:
  "length (base64_decode (privateKeyBase64 config)) \<noteq> 64 \<Longrightarrow>
   signRequest R w config path method b = Inl (Error ''bad secret key size'')"
  by (simp add: signRequest_def fromSecretKey_def)

lemma signRequest_good_key:
  "length (base64_decode (privateKeyBase64 config)) = 64 \<Longrightarrow>
   signRequest R w config path method b =
     Inr \<lparr>timestamp = show_nat (date_now w div 1000),
          signatureBase64 = base64_encode (ed25519 R
            (utf8_bytes (canonical_message (apiKey config) (show_nat (date_now w div 1000)) path method b))
            (base64_decode (privateKeyBase64 config)))\<rparr>"
  by (simp add: signRequest_def fromSecretKey_def sign_detached_def Let_def)

lemma makeRequest_bad_key:
  "length (base64_decode (privateKeyBase64 config)) \<noteq> 64 \<Longrightarrow>
   makeRequest R w config path method body_arg = (Inl (Error ''bad secret key size''), [])"
  by (simp add: makeRequest_def signRequest_bad_key)

lemma makeRequest_fetch_calls:
  "fetch_calls (snd (makeRequest R w config path method body_arg)) =
     (case signRequest R w config path method (case body_arg of None \<Rightarrow> [] | Some b \<Rightarrow> b) of
        Inl e \<Rightarrow> []
      | Inr sg \<Rightarrow> [requestOptions config sg path method (case body_arg of None \<Rightarrow> [] | Some b \<Rightarrow> b)])"
  by (simp add: makeRequest_def Let_def split: sum.splits fetch_outcome.splits)

subsection \<open>The canonical message\<close>

text \<open>
  C1: the message that \<open>signRequest\<close> signs is the API key, the timestamp, the path, the
  method and the body, concatenated in that order with nothing between them: with a key
  of the right size, the signature returned is the one of exactly these bytes. With four
  of the fields fixed, another value of the fifth gives another message.
\<close>

theorem signRequest_canonical_message:
  "canonical_message a t p m b = a @ t @ p @ m @ b
   \<and> (length (base64_decode (privateKeyBase64 config)) = 64 \<longrightarrow>
        signRequest R w config path meth body' =
          Inr \<lparr>timestamp = show_nat (date_now w div 1000),
               signatureBase64 =
                 base64_encode (ed25519 R
                   (utf8_bytes (apiKey config @ show_nat (date_now w div 1000) @ path @ meth @ body'))
                   (base64_decode (privateKeyBase64 config)))\<rparr>)
   \<and> (a \<noteq> a' \<longrightarrow> canonical_message a t p m b \<noteq> canonical_message a' t p m b)
   \<and> (t \<noteq> t' \<longrightarrow> canonical_message a t p m b \<noteq> canonical_message a t' p m b)
   \<and> (p \<noteq> p' \<longrightarrow> canonical_message a t p m b \<noteq> canonical_message a t p' m b)
   \<and> (m \<noteq> m' \<longrightarrow> canonical_message a t p m b \<noteq> canonical_message a t p m' b)
   \<and> (b \<noteq> b' \<longrightarrow> canonical_message a t p m b \<noteq> canonical_message a t p m b')"
proof -
  have sign: "length (base64_decode (privateKeyBase64 config)) = 64 \<Longrightarrow>
        signRequest R w config path meth body' =
          Inr \<lparr>timestamp = show_nat (date_now w div 1000),
               signatureBase64 =
                 base64_encode (ed25519 R
                   (utf8_bytes (apiKey config @ show_nat (date_now w div 1000) @ path @ meth @ body'))
                   (base64_decode (privateKeyBase64 config)))\<rparr>"
    by (simp add: signRequest_good_key canonical_message_def)
  show ?thesis
    using sign by (simp add: canonical_message_def)
qed

theorem signRequest_canonical_message_witness:
  "length (base64_decode (privateKeyBase64 example_config)) = 64
   \<and> signRequest example_runtime (example_world 200 []) example_config ''/p'' ''GET'' [] =
       Inr \<lparr>timestamp = show_nat (date_now (example_world 200 []) div 1000),
            signatureBase64 =
              base64_encode (ed25519 example_runtime
                (utf8_bytes (apiKey example_config @ show_nat (date_now (example_world 200 []) div 1000)
                   @ ''/p'' @ ''GET'' @ []))
                (base64_decode (privateKeyBase64 example_config)))\<rparr>
   \<and> ''k1'' \<noteq> ''k2''
   \<and> canonical_message ''k1'' ''17'' ''/p'' ''GET'' ''{}'' \<noteq> canonical_message ''k2'' ''17'' ''/p'' ''GET'' ''{}''
   \<and> canonical_message ''k1'' ''17'' ''/p'' ''GET'' ''{}'' \<noteq> canonical_message ''k1'' ''18'' ''/p'' ''GET'' ''{}''
   \<and> canonical_message ''k1'' ''17'' ''/p'' ''GET'' ''{}'' \<noteq> canonical_message ''k1'' ''17'' ''/q'' ''GET'' ''{}''
   \<and> canonical_message ''k1'' ''17'' ''/p'' ''GET'' ''{}'' \<noteq> canonical_message ''k1'' ''17'' ''/p'' ''POST'' ''{}''
   \<and> canonical_message ''k1'' ''17'' ''/p'' ''GET'' ''{}'' \<noteq> canonical_message ''k1'' ''17'' ''/p'' ''GET'' ''[]''"
proof -
  have key: "length (base64_decode (privateKeyBase64 example_config)) = 64"
    by (simp add: example_config_def example_key_length)
  from key
    signRequest_canonical_message [where config = example_config and R = example_runtime
      and w = "example_world 200 []" and path = "''/p''" and meth = "''GET''" and body' = "[]"
      and a = "''k1''" and a' = "''k2''" and t = "''17''" and t' = "''18''" and p = "''/p''"
      and p' = "''/q''" and m = "''GET''" and m' = "''POST''" and b = "''{}''" and b' = "''[]''"]
  show ?thesis by (simp add: canonical_message_def)
qed

subsection \<open>Determinism of signing\<close>

text \<open>
  C4: signing is deterministic. Two runs of \<open>signRequest\<close> for the same private key (and
  API key, which is part of the message), path, method and body give the same timestamp
  and signature whenever their clocks show the same second: of the world the result
  depends on the second of the clock alone, and the public key plays no part.
\<close>

theorem signRequest_deterministic:
  "privateKeyBase64 c1 = privateKeyBase64 c2 \<Longrightarrow> apiKey c1 = apiKey c2 \<Longrightarrow>
   date_now w1 div 1000 = date_now w2 div 1000 \<Longrightarrow>
   signRequest R w1 c1 path method body' = signRequest R w2 c2 path method body'"
  by (simp add: signRequest_def Let_def split: sum.splits)

theorem signRequest_deterministic_witness:
  "privateKeyBase64 example_config = privateKeyBase64 (example_config\<lparr>publicKeyBase64 := ''AAAA''\<rparr>)
   \<and> apiKey example_config = apiKey (example_config\<lparr>publicKeyBase64 := ''AAAA''\<rparr>)
   \<and> date_now (example_world 200 []) div 1000 = date_now offline_world div 1000
   \<and> signRequest example_runtime (example_world 200 []) example_config ''/p'' ''GET'' [] =
       signRequest example_runtime offline_world (example_config\<lparr>publicKeyBase64 := ''AAAA''\<rparr>) ''/p'' ''GET'' []"
proof -
  have clock: "date_now (example_world 200 []) div 1000 = date_now offline_world div 1000"
    by (simp add: example_world_def offline_world_def)
  have "signRequest example_runtime (example_world 200 []) example_config ''/p'' ''GET'' [] =
       signRequest example_runtime offline_world (example_config\<lparr>publicKeyBase64 := ''AAAA''\<rparr>) ''/p'' ''GET'' []"
    by (rule signRequest_deterministic) (simp_all add: clock)
  with clock show ?thesis by simp
qed

subsection \<open>Placing an order\<close>

lemma define_property_new:
  "k \<notin> fst ` set obj \<Longrightarrow> define_property obj (k, v) = obj @ [(k, v)]"
  by (induction obj) auto

lemma define_property_existing:
  "distinct (map fst obj) \<Longrightarrow> k \<in> fst ` set obj \<Longrightarrow>
   define_property obj (k, v) = map (\<lambda>(k', x). if k' = k then (k', v) else (k', x)) obj"
proof (induction obj)
  case Nil
  then show ?case by simp
next
  case (Cons p obj)
  obtain k' x where p: "p = (k', x)" by (cases p)
  show ?case
  proof (cases "k' = k")
    case True
    with Cons.prems p have "k \<notin> fst ` set obj" by auto
    then have "map (\<lambda>(k', x). if k' = k then (k', v) else (k', x)) obj = obj"
      by (intro map_idI) (auto simp: rev_image_eqI)
    with True p show ?thesis by simp
  next
    case False
    with Cons p show ?thesis by auto
  qed
qed

lemma foldl_define_property_distinct:
  "distinct (map fst (acc @ ps)) \<Longrightarrow> foldl define_property acc ps = acc @ ps"
proof (induction ps arbitrary: acc)
  case Nil
  then show ?case by simp
next
  case (Cons p ps)
  obtain k v where p: "p = (k, v)" by (cases p)
  from Cons.prems p have new: "k \<notin> fst ` set acc" by auto
  from Cons.prems p have "distinct (map fst ((acc @ [(k, v)]) @ ps))" by auto
  from Cons.IH [OF this] show ?case by (simp add: p define_property_new [OF new])
qed

lemma spread_with_distinct:
  "distinct (map fst obj) \<Longrightarrow>
   spread_with obj k v =
     (if k \<in> fst ` set obj
      then map (\<lambda>(k', x). if k' = k then (k', v) else (k', x)) obj
      else obj @ [(k, v)])"
  using foldl_define_property_distinct [of "[]" obj]
  by (simp add: spread_with_def define_property_new define_property_existing)

lemma spread_with_value_inj:
  assumes "distinct (map fst obj)"
  shows "spread_with obj k v = spread_with obj k v' \<longleftrightarrow> v = v'"
proof (cases "k \<in> fst ` set obj")
  case True
  then obtain x where x: "(k, x) \<in> set obj" by auto
  let ?f = "\<lambda>u (k', x). if k' = k then (k', u) else (k', x)"
  have "v = v'" if "map (?f v) obj = map (?f v') obj"
  proof -
    from that x have "?f v (k, x) = ?f v' (k, x)" by (simp only: map_eq_conv)
    then show ?thesis by simp
  qed
  with True assms show ?thesis by (auto simp: spread_with_distinct)
next
  case False
  with assms show ?thesis by (simp add: spread_with_distinct)
qed

lemma members_append: "members R (ps @ qs) = members R ps @ members R qs"
  by (induction ps) (auto split: option.splits)

lemma members_map_filter:
  "members R ps =
     List.map_filter (\<lambda>(k, x). map_option (\<lambda>s. quote k @ '':'' @ s) (serialize R x)) ps"
  by (induction ps) (auto simp: map_filter_simps split: option.splits)

lemma quote_char_plain:
  "32 \<le> (of_char c :: nat) \<Longrightarrow> c \<noteq> CHR 0x22 \<Longrightarrow> c \<noteq> CHR 0x5C \<Longrightarrow> quote_char c = [c]"
proof -
  assume plain: "32 \<le> (of_char c :: nat)" "c \<noteq> CHR 0x22" "c \<noteq> CHR 0x5C"
  have "(of_char c :: nat) \<noteq> of_char (CHR 0x22)" "(of_char c :: nat) \<noteq> of_char (CHR 0x5C)"
    using plain by (simp_all only: of_char_eq_iff not_False_eq_True)
  then have "(of_char c :: nat) \<noteq> 34" "(of_char c :: nat) \<noteq> 92" by simp_all
  with plain show ?thesis by (simp add: quote_char_def Let_def)
qed

lemma quote_plain:
  "\<forall>c \<in> set s. 32 \<le> (of_char c :: nat) \<and> c \<noteq> CHR 0x22 \<and> c \<noteq> CHR 0x5C \<Longrightarrow>
   quote s = [CHR 0x22] @ s @ [CHR 0x22]"
proof -
  assume "\<forall>c \<in> set s. 32 \<le> (of_char c :: nat) \<and> c \<noteq> CHR 0x22 \<and> c \<noteq> CHR 0x5C"
  then have "concat (map quote_char s) = s"
    by (induction s) (simp_all add: quote_char_plain)
  then show ?thesis by (simp add: quote_def)
qed

lemma quote_client_order_id: \<open>quote ''client_order_id'' = ''"client_order_id"''\<close>
  by code_simp

lemma JSON_stringify_nonempty: "JSON_stringify R obj \<noteq> []"
  by (simp add: JSON_stringify_def)

lemma placeOrder_dispatch:
  "length (base64_decode (privateKeyBase64 config)) = 64 \<Longrightarrow>
   map (\<lambda>req. (url req, http_method req, body req))
     (fetch_calls (snd (placeOrder R w config order))) =
   [(''https://trading.robinhood.com/api/v1/crypto/trading/orders/'', ''POST'',
     Some (''{'' @ join '','' (members R (spread_with order ''client_order_id'' (Str (uuidv4 w))))
             @ ''}''))]"
  by (simp add: placeOrder_def makeRequest_fetch_calls signRequest_good_key requestOptions_def
      baseUrl_def JSON_stringify_def)

text \<open>
  C2, as the code has it: an order object that brings a \<open>client_order_id\<close> of its own
  gets no field added. The property keeps its place and takes the generated identifier,
  so the body sent has as many fields as the input and the caller's value is gone.
\<close>

theorem placeOrder_own_id_counterexample:
  \<open>(''client_order_id'', Str ''my-own-id'') \<in> set example_order_with_id
   \<and> spread_with example_order_with_id ''client_order_id''
         (Str (uuidv4 (example_world 200 ''ok''))) =
       [(''symbol'', Str ''BTC-USD''),
        (''client_order_id'', Str ''9b2f6c1e-7a43-4d0b-8f5e-2c1a0d3e4f56''),
        (''side'', Str ''buy''), (''type'', Str ''market''),
        (''market_order_config'', Obj [(''asset_quantity'', Num 1)])]
   \<and> length (spread_with example_order_with_id ''client_order_id''
         (Str (uuidv4 (example_world 200 ''ok'')))) = length example_order_with_id
   \<and> map (\<lambda>req. (url req, http_method req, body req))
         (fetch_calls (snd (placeOrder example_runtime (example_world 200 ''ok'') example_config
            example_order_with_id))) =
       [(''https://trading.robinhood.com/api/v1/crypto/trading/orders/'', ''POST'',
         Some ''{"symbol":"BTC-USD","client_order_id":"9b2f6c1e-7a43-4d0b-8f5e-2c1a0d3e4f56","side":"buy","type":"market","market_order_config":{"asset_quantity":1}}'')]\<close>
proof -
  have key: "length (base64_decode (privateKeyBase64 example_config)) = 64"
    by (simp add: example_config_def example_key_length)
  have own: "(''client_order_id'', Str ''my-own-id'') \<in> set example_order_with_id"
    by (simp add: example_order_with_id_def)
  have uuid: "uuidv4 (example_world 200 ''ok'') = ''9b2f6c1e-7a43-4d0b-8f5e-2c1a0d3e4f56''"
    by (simp add: example_world_def)
  have payload: "spread_with example_order_with_id ''client_order_id''
         (Str ''9b2f6c1e-7a43-4d0b-8f5e-2c1a0d3e4f56'') =
       [(''symbol'', Str ''BTC-USD''),
        (''client_order_id'', Str ''9b2f6c1e-7a43-4d0b-8f5e-2c1a0d3e4f56''),
        (''side'', Str ''buy''), (''type'', Str ''market''),
        (''market_order_config'', Obj [(''asset_quantity'', Num 1)])]"
    by (simp add: spread_with_def example_order_with_id_def)
  have json: \<open>''{'' @ join '','' (members example_runtime
        [(''symbol'', Str ''BTC-USD''),
         (''client_order_id'', Str ''9b2f6c1e-7a43-4d0b-8f5e-2c1a0d3e4f56''),
         (''side'', Str ''buy''), (''type'', Str ''market''),
         (''market_order_config'', Obj [(''asset_quantity'', Num 1)])]) @ ''}'' =
       ''{"symbol":"BTC-USD","client_order_id":"9b2f6c1e-7a43-4d0b-8f5e-2c1a0d3e4f56","side":"buy","type":"market","market_order_config":{"asset_quantity":1}}''\<close>
    by code_simp
  have sent: "map (\<lambda>req. (url req, http_method req, body req))
         (fetch_calls (snd (placeOrder example_runtime (example_world 200 ''ok'') example_config
            example_order_with_id))) =
       [(''https://trading.robinhood.com/api/v1/crypto/trading/orders/'', ''POST'',
         Some (''{'' @ join '','' (members example_runtime
           (spread_with example_order_with_id ''client_order_id''
              (Str ''9b2f6c1e-7a43-4d0b-8f5e-2c1a0d3e4f56''))) @ ''}''))]"
    using placeOrder_dispatch [OF key, of example_runtime "example_world 200 ''ok''"]
    by (simp add: uuid)
  have len: "length (spread_with example_order_with_id ''client_order_id''
         (Str ''9b2f6c1e-7a43-4d0b-8f5e-2c1a0d3e4f56'')) = length example_order_with_id"
    by (simp add: payload) (simp add: example_order_with_id_def)
  from own payload len sent show ?thesis
    unfolding uuid payload json by simp
qed

text \<open>
  C2, amended: for every order object (each key once), \<open>placeOrder\<close> hands to the
  dispatcher the path of the orders, the method POST and the JSON text of the input with the
  property \<open>client_order_id\<close> set to the identifier that the generator returned on this
  call: added after the input's fields when the input has no such property, put in the
  place of the input's own value when it has one. All other fields are passed through in
  their order, written as \<open>JSON.stringify\<close> writes them: a field that is \<open>undefined\<close> is
  left out, a number that is not finite is written \<open>null\<close>, a string is quoted. When the
  request is signed, exactly this request goes to \<open>fetch\<close>. Two calls carry the same
  identifier exactly when the generator returned the same value to both.
\<close>

theorem placeOrder_sets_client_order_id:
  \<open>distinct (map fst order) \<Longrightarrow>
   spread_with order ''client_order_id'' v =
     (if ''client_order_id'' \<in> fst ` set order
      then map (\<lambda>(k, x). if k = ''client_order_id'' then (k, v) else (k, x)) order
      else order @ [(''client_order_id'', v)])
   \<and> placeOrder R w config order =
       makeRequest R w config ''/api/v1/crypto/trading/orders/'' ''POST''
         (Some (''{'' @ join '','' (members R (spread_with order ''client_order_id'' (Str (uuidv4 w))))
                 @ ''}''))
   \<and> members R ps =
       List.map_filter (\<lambda>(k, x). map_option (\<lambda>s. quote k @ '':'' @ s) (serialize R x)) ps
   \<and> serialize R Undefined = None
   \<and> serialize R (Str s) = Some (quote s)
   \<and> serialize R (Num n) = Some (if number_isFinite R n then number_toString R n else ''null'')
   \<and> serialize R (Obj ps) = Some (''{'' @ join '','' (members R ps) @ ''}'')
   \<and> ((\<forall>c \<in> set s. 32 \<le> (of_char c :: nat) \<and> c \<noteq> CHR 0x22 \<and> c \<noteq> CHR 0x5C) \<longrightarrow>
        quote s = ''"'' @ s @ ''"'')
   \<and> (''client_order_id'' \<notin> fst ` set order \<longrightarrow>
        members R (spread_with order ''client_order_id'' (Str (uuidv4 w))) =
          members R order @ [''"client_order_id":'' @ quote (uuidv4 w)])
   \<and> (length (base64_decode (privateKeyBase64 config)) = 64 \<longrightarrow>
        map (\<lambda>req. (url req, http_method req, body req))
          (fetch_calls (snd (placeOrder R w config order))) =
        [(''https://trading.robinhood.com/api/v1/crypto/trading/orders/'', ''POST'',
          Some (''{'' @ join '','' (members R (spread_with order ''client_order_id'' (Str (uuidv4 w))))
                  @ ''}''))])
   \<and> (spread_with order ''client_order_id'' (Str (uuidv4 w)) =
        spread_with order ''client_order_id'' (Str (uuidv4 w'))
        \<longleftrightarrow> uuidv4 w = uuidv4 w')\<close>
proof -
  assume order: "distinct (map fst order)"
  have spread: "spread_with order ''client_order_id'' v =
     (if ''client_order_id'' \<in> fst ` set order
      then map (\<lambda>(k, x). if k = ''client_order_id'' then (k, v) else (k, x)) order
      else order @ [(''client_order_id'', v)])"
    by (rule spread_with_distinct [OF order])
  have place: "placeOrder R w config order =
       makeRequest R w config ''/api/v1/crypto/trading/orders/'' ''POST''
         (Some (''{'' @ join '','' (members R (spread_with order ''client_order_id'' (Str (uuidv4 w))))
                 @ ''}''))"
    by (simp add: placeOrder_def JSON_stringify_def)
  have mem: "members R ps =
       List.map_filter (\<lambda>(k, x). map_option (\<lambda>s. quote k @ '':'' @ s) (serialize R x)) ps"
    by (rule members_map_filter)
  have plain: "(\<forall>c \<in> set s. 32 \<le> (of_char c :: nat) \<and> c \<noteq> CHR 0x22 \<and> c \<noteq> CHR 0x5C) \<longrightarrow>
        quote s = [CHR 0x22] @ s @ [CHR 0x22]"
    by (blast intro: quote_plain)
  have added: "''client_order_id'' \<notin> fst ` set order \<longrightarrow>
        members R (spread_with order ''client_order_id'' (Str (uuidv4 w))) =
          members R order @ [[CHR 0x22] @ ''client_order_id'' @ [CHR 0x22] @ '':'' @ quote (uuidv4 w)]"
    using quote_client_order_id
    by (simp add: spread_with_distinct [OF order] members_append)
  have sent: "length (base64_decode (privateKeyBase64 config)) = 64 \<longrightarrow>
        map (\<lambda>req. (url req, http_method req, body req))
          (fetch_calls (snd (placeOrder R w config order))) =
        [(''https://trading.robinhood.com/api/v1/crypto/trading/orders/'', ''POST'',
          Some (''{'' @ join '','' (members R (spread_with order ''client_order_id'' (Str (uuidv4 w))))
                  @ ''}''))]"
    by (blast intro: placeOrder_dispatch)
  have same: "spread_with order ''client_order_id'' (Str (uuidv4 w)) =
        spread_with order ''client_order_id'' (Str (uuidv4 w'))
        \<longleftrightarrow> uuidv4 w = uuidv4 w'"
    by (simp add: spread_with_value_inj [OF order])
  from spread place mem plain added sent same show ?thesis
    by simp
qed

theorem placeOrder_sets_client_order_id_witness:
  \<open>distinct (map fst example_order)
   \<and> ''client_order_id'' \<notin> fst ` set example_order
   \<and> length (base64_decode (privateKeyBase64 example_config)) = 64
   \<and> spread_with example_order ''client_order_id'' (Str (uuidv4 (example_world 200 ''ok''))) =
       example_order @ [(''client_order_id'', Str ''9b2f6c1e-7a43-4d0b-8f5e-2c1a0d3e4f56'')]
   \<and> map (\<lambda>req. (url req, http_method req, body req))
         (fetch_calls (snd (placeOrder example_runtime (example_world 200 ''ok'') example_config
            example_order))) =
       [(''https://trading.robinhood.com/api/v1/crypto/trading/orders/'', ''POST'',
         Some ''{"side":"buy","type":"market","symbol":"DOGE-USD","market_order_config":{"asset_quantity":1},"client_order_id":"9b2f6c1e-7a43-4d0b-8f5e-2c1a0d3e4f56"}'')]
   \<and> distinct (map fst example_order_nan)
   \<and> map (\<lambda>req. (url req, http_method req, body req))
         (fetch_calls (snd (placeOrder nan_runtime (example_world 200 ''ok'') example_config
            example_order_nan))) =
       [(''https://trading.robinhood.com/api/v1/crypto/trading/orders/'', ''POST'',
         Some ''{"symbol":"BTC-USD","side":"sell","type":"limit","limit_order_config":{"asset_quantity":null,"limit_price":250,"time_in_force":"gtc"},"client_order_id":"9b2f6c1e-7a43-4d0b-8f5e-2c1a0d3e4f56"}'')]
   \<and> serialize example_runtime
         (Str [CHR 0x22, CHR 0x5C, CHR 0x08, CHR 0x0C, CHR 0x0A, CHR 0x0D, CHR 0x09, CHR 0x1F, CHR ''a'']) =
       Some [CHR 0x22, CHR 0x5C, CHR 0x22, CHR 0x5C, CHR 0x5C, CHR 0x5C, CHR ''b'', CHR 0x5C, CHR ''f'',
             CHR 0x5C, CHR ''n'', CHR 0x5C, CHR ''r'', CHR 0x5C, CHR ''t'',
             CHR 0x5C, CHR ''u'', CHR ''0'', CHR ''0'', CHR ''1'', CHR ''f'', CHR ''a'', CHR 0x22]\<close>
proof -
  let ?w = "example_world 200 ''ok''"
  have order: "distinct (map fst example_order)"
    by (simp add: example_order_def)
  have fresh: "''client_order_id'' \<notin> fst ` set example_order"
    by (simp add: example_order_def)
  have order_nan: "distinct (map fst example_order_nan)"
    by (simp add: example_order_nan_def)
  have key: "length (base64_decode (privateKeyBase64 example_config)) = 64"
    by (simp add: example_config_def example_key_length)
  have uuid: "uuidv4 ?w = ''9b2f6c1e-7a43-4d0b-8f5e-2c1a0d3e4f56''"
    by (simp add: example_world_def)
  note one = placeOrder_sets_client_order_id [OF order, where R = example_runtime and w = ?w
      and config = example_config and v = "Str (uuidv4 ?w)" and ps = "[]" and s = "[]" and n = 0
      and w' = ?w]
  note two = placeOrder_sets_client_order_id [OF order_nan, where R = nan_runtime and w = ?w
      and config = example_config and v = "Str (uuidv4 ?w)" and ps = "[]" and s = "[]" and n = None
      and w' = ?w]
  have "spread_with example_order ''client_order_id'' (Str (uuidv4 ?w)) =
       example_order @ [(''client_order_id'', Str (uuidv4 ?w))]"
    using one [THEN conjunct1] fresh by (simp only: if_False)
  then have payload: "spread_with example_order ''client_order_id'' (Str (uuidv4 ?w)) =
       example_order @ [(''client_order_id'', Str ''9b2f6c1e-7a43-4d0b-8f5e-2c1a0d3e4f56'')]"
    by (simp only: uuid)
  have json: \<open>''{'' @ join '','' (members example_runtime
        (example_order @ [(''client_order_id'', Str ''9b2f6c1e-7a43-4d0b-8f5e-2c1a0d3e4f56'')])) @ ''}'' =
      ''{"side":"buy","type":"market","symbol":"DOGE-USD","market_order_config":{"asset_quantity":1},"client_order_id":"9b2f6c1e-7a43-4d0b-8f5e-2c1a0d3e4f56"}''\<close>
    by code_simp
  note sent = one [THEN conjunct2, THEN conjunct2, THEN conjunct2, THEN conjunct2, THEN conjunct2,
      THEN conjunct2, THEN conjunct2, THEN conjunct2, THEN conjunct2, THEN conjunct1, THEN mp, OF key]
  have json_nan: \<open>''{'' @ join '','' (members nan_runtime
        (spread_with example_order_nan ''client_order_id''
           (Str ''9b2f6c1e-7a43-4d0b-8f5e-2c1a0d3e4f56''))) @ ''}'' =
      ''{"symbol":"BTC-USD","side":"sell","type":"limit","limit_order_config":{"asset_quantity":null,"limit_price":250,"time_in_force":"gtc"},"client_order_id":"9b2f6c1e-7a43-4d0b-8f5e-2c1a0d3e4f56"}''\<close>
    by code_simp
  note sent_nan = two [THEN conjunct2, THEN conjunct2, THEN conjunct2, THEN conjunct2, THEN conjunct2,
      THEN conjunct2, THEN conjunct2, THEN conjunct2, THEN conjunct2, THEN conjunct1, THEN mp, OF key]
  have escapes: "serialize example_runtime
         (Str [CHR 0x22, CHR 0x5C, CHR 0x08, CHR 0x0C, CHR 0x0A, CHR 0x0D, CHR 0x09, CHR 0x1F, CHR ''a'']) =
       Some [CHR 0x22, CHR 0x5C, CHR 0x22, CHR 0x5C, CHR 0x5C, CHR 0x5C, CHR ''b'', CHR 0x5C, CHR ''f'',
             CHR 0x5C, CHR ''n'', CHR 0x5C, CHR ''r'', CHR 0x5C, CHR ''t'',
             CHR 0x5C, CHR ''u'', CHR ''0'', CHR ''0'', CHR ''1'', CHR ''f'', CHR ''a'', CHR 0x22]"
    by code_simp
  show ?thesis
    apply (intro conjI)
            apply (rule order)
           apply (rule fresh)
          apply (rule key)
         apply (rule payload)
        apply (rule sent [unfolded payload json])
       apply (rule order_nan)
      apply (rule sent_nan [unfolded uuid json_nan])
    apply (rule escapes)
    done
qed

subsection \<open>Failures of a dispatched request\<close>




lemma makeRequest_signed:
  "signRequest R w config path meth (case body_arg of None \<Rightarrow> [] | Some b \<Rightarrow> b) = Inr sg \<Longrightarrow>
   makeRequest R w config path meth body_arg =
     (let req = requestOptions config sg path meth (case body_arg of None \<Rightarrow> [] | Some b \<Rightarrow> b)
      in case fetch w req of
           Rejected error \<Rightarrow> (Inl error, [FetchCall req, ConsoleError error])
         | Resolved response \<Rightarrow>
             if \<not> ok response
             then (Inl (http_error (status response)),
                   [FetchCall req, ConsoleError (http_error (status response))])
             else (json response, [FetchCall req]))"
  by (simp add: makeRequest_def Let_def split: fetch_outcome.splits)




subsection \<open>The body of a request\<close>

lemma makeRequest_requests:
  "req \<in> set (fetch_calls (snd (makeRequest R w config path meth body_arg))) \<Longrightarrow>
   url req = baseUrl @ path \<and> http_method req = meth
   \<and> body req = (case body_arg of None \<Rightarrow> None | Some b \<Rightarrow> if b = [] then None else Some b)"
  by (auto simp: makeRequest_fetch_calls requestOptions_def split: sum.splits option.splits)

text \<open>
  C5: every request that \<open>makeRequest\<close> hands to \<open>fetch\<close> has a body exactly when the
  caller gave a body that is not empty, and then it is that body; a signed call hands
  over one request. The seven operations that dispatch with the method GET pass no body,
  so every request of theirs has the method GET and no body.
\<close>

theorem makeRequest_body:
  "(\<forall>req \<in> set (fetch_calls (snd (makeRequest R w config path meth body_arg))).
      body req = (case body_arg of None \<Rightarrow> None | Some b \<Rightarrow> if b = [] then None else Some b))
   \<and> (length (base64_decode (privateKeyBase64 config)) = 64 \<longrightarrow>
        length (fetch_calls (snd (makeRequest R w config path meth body_arg))) = 1)
   \<and> (\<forall>req \<in> set (fetch_calls (snd (getBestBidAsk R w config symbols))).
        http_method req = ''GET'' \<and> body req = None)
   \<and> (\<forall>req \<in> set (fetch_calls (snd (getEstimatedPrice R w config symbol side quantities))).
        http_method req = ''GET'' \<and> body req = None)
   \<and> (\<forall>req \<in> set (fetch_calls (snd (getTradingPairs R w config symbols limit cursor))).
        http_method req = ''GET'' \<and> body req = None)
   \<and> (\<forall>req \<in> set (fetch_calls (snd (getOrder R w config orderId))).
        http_method req = ''GET'' \<and> body req = None)
   \<and> (\<forall>req \<in> set (fetch_calls (snd (getOrders R w config filters limit cursor))).
        http_method req = ''GET'' \<and> body req = None)
   \<and> (\<forall>req \<in> set (fetch_calls (snd (getAccount R w config))).
        http_method req = ''GET'' \<and> body req = None)
   \<and> (\<forall>req \<in> set (fetch_calls (snd (getHoldings R w config assetCodes limit cursor))).
        http_method req = ''GET'' \<and> body req = None)"
proof -
  have a: "\<forall>req \<in> set (fetch_calls (snd (makeRequest R w config path meth body_arg))).
      body req = (case body_arg of None \<Rightarrow> None | Some b \<Rightarrow> if b = [] then None else Some b)"
    by (blast dest: makeRequest_requests)
  have b: "length (base64_decode (privateKeyBase64 config)) = 64 \<longrightarrow>
        length (fetch_calls (snd (makeRequest R w config path meth body_arg))) = 1"
    by (simp add: makeRequest_fetch_calls signRequest_good_key)
  have get: "\<forall>req \<in> set (fetch_calls (snd (makeRequest R w config p ''GET'' None))).
      http_method req = ''GET'' \<and> body req = None" for p
    by (auto dest: makeRequest_requests)
  have c: "\<forall>req \<in> set (fetch_calls (snd (getBestBidAsk R w config symbols))).
        http_method req = ''GET'' \<and> body req = None"
    unfolding getBestBidAsk_def Let_def by (rule get)
  have d: "\<forall>req \<in> set (fetch_calls (snd (getEstimatedPrice R w config symbol side quantities))).
        http_method req = ''GET'' \<and> body req = None"
    unfolding getEstimatedPrice_def Let_def by (rule get)
  have e: "\<forall>req \<in> set (fetch_calls (snd (getTradingPairs R w config symbols limit cursor))).
        http_method req = ''GET'' \<and> body req = None"
    unfolding getTradingPairs_def Let_def by (rule get)
  have f: "\<forall>req \<in> set (fetch_calls (snd (getOrder R w config orderId))).
        http_method req = ''GET'' \<and> body req = None"
    unfolding getOrder_def by (rule get)
  have g: "\<forall>req \<in> set (fetch_calls (snd (getOrders R w config filters limit cursor))).
        http_method req = ''GET'' \<and> body req = None"
    unfolding getOrders_def Let_def by (rule get)
  have h: "\<forall>req \<in> set (fetch_calls (snd (getAccount R w config))).
        http_method req = ''GET'' \<and> body req = None"
    unfolding getAccount_def by (rule get)
  have i: "\<forall>req \<in> set (fetch_calls (snd (getHoldings R w config assetCodes limit cursor))).
        http_method req = ''GET'' \<and> body req = None"
    unfolding getHoldings_def Let_def by (rule get)
  from a b c d e f g h i show ?thesis by blast
qed

lemma singleton_map:
  "length xs = 1 \<Longrightarrow> \<forall>x \<in> set xs. f x = y \<Longrightarrow> map f xs = [y]"
  by (cases xs) auto

theorem makeRequest_body_witness:
  "length (base64_decode (privateKeyBase64 example_config)) = 64
   \<and> map body (fetch_calls (snd (makeRequest example_runtime (example_world 200 ''ok'') example_config
        ''/api/v1/crypto/trading/orders/'' ''POST'' (Some ''{}'')))) = [Some ''{}'']
   \<and> map body (fetch_calls (snd (makeRequest example_runtime (example_world 200 ''ok'') example_config
        ''/api/v1/crypto/trading/orders/x/cancel/'' ''POST'' (Some [])))) = [None]
   \<and> map body (fetch_calls (snd (makeRequest example_runtime (example_world 200 ''ok'') example_config
        ''/api/v1/crypto/trading/accounts/'' ''GET'' None))) = [None]"
proof -
  have key: "length (base64_decode (privateKeyBase64 example_config)) = 64"
    by (simp add: example_config_def example_key_length)
  have one: "map body (fetch_calls (snd (makeRequest example_runtime (example_world 200 ''ok'')
      example_config p m b))) = [case b of None \<Rightarrow> None | Some b \<Rightarrow> if b = [] then None else Some b]"
    for p m b
    using makeRequest_body [where R = example_runtime and w = "example_world 200 ''ok''"
        and config = example_config and path = p and meth = m and body_arg = b] key
    by (intro singleton_map) blast+
  from key show ?thesis by (simp add: one)
qed

subsection \<open>Query strings\<close>

lemma push_filters_append:
  "push_filters q (fs @ gs) = push_filters (push_filters q fs) gs"
  by (induction fs arbitrary: q) auto

lemma push_filters_empty_value:
  "push_filters q (fs @ [(k, Some [])] @ gs) = push_filters q (fs @ gs)"
  by (simp add: push_filters_append)

lemma makeRequest_dispatch:
  "length (base64_decode (privateKeyBase64 config)) = 64 \<Longrightarrow>
   map (\<lambda>req. (url req, http_method req, body req))
     (fetch_calls (snd (makeRequest R w config path meth body_arg))) =
   [(baseUrl @ path, meth,
     case body_arg of None \<Rightarrow> None | Some b \<Rightarrow> if b = [] then None else Some b)]"
  by (simp add: makeRequest_fetch_calls signRequest_good_key requestOptions_def split: option.splits)

lemma example_config_key: "length (base64_decode (privateKeyBase64 example_config)) = 64"
  by (simp add: example_config_def example_key_length)

text \<open>
  C6: for the filters \<open>{symbol: "BTC-USD", side: "buy"}\<close>, no limit and no cursor,
  \<open>getOrders\<close> dispatches a GET for the path of the orders followed by
  \<open>?symbol=BTC-USD&side=buy\<close>: the two parameters in the order of insertion, and no other.
\<close>

theorem getOrders_symbol_side:
  "getOrders R w config (Some [(''symbol'', Some ''BTC-USD''), (''side'', Some ''buy'')]) None None =
     makeRequest R w config ''/api/v1/crypto/trading/orders/?symbol=BTC-USD&side=buy'' ''GET'' None
   \<and> (length (base64_decode (privateKeyBase64 config)) = 64 \<longrightarrow>
        map (\<lambda>req. (url req, http_method req, body req))
          (fetch_calls (snd (getOrders R w config
             (Some [(''symbol'', Some ''BTC-USD''), (''side'', Some ''buy'')]) None None))) =
        [(''https://trading.robinhood.com/api/v1/crypto/trading/orders/?symbol=BTC-USD&side=buy'',
          ''GET'', None)])"
proof -
  have call: "getOrders R w config (Some [(''symbol'', Some ''BTC-USD''), (''side'', Some ''buy'')])
      None None =
     makeRequest R w config ''/api/v1/crypto/trading/orders/?symbol=BTC-USD&side=buy'' ''GET'' None"
    by (simp add: getOrders_def)
  show ?thesis
    unfolding call by (simp add: makeRequest_dispatch baseUrl_def)
qed

theorem getOrders_symbol_side_witness:
  "length (base64_decode (privateKeyBase64 example_config)) = 64
   \<and> map (\<lambda>req. (url req, http_method req, body req))
         (fetch_calls (snd (getOrders example_runtime (example_world 200 ''ok'') example_config
            (Some [(''symbol'', Some ''BTC-USD''), (''side'', Some ''buy'')]) None None))) =
       [(''https://trading.robinhood.com/api/v1/crypto/trading/orders/?symbol=BTC-USD&side=buy'',
         ''GET'', None)]"
  using getOrders_symbol_side [of example_runtime "example_world 200 ''ok''" example_config]
    example_config_key
  by blast

text \<open>
  C7: for the symbols \<open>["BTC-USD", "ETH-USD"]\<close>, \<open>getBestBidAsk\<close> dispatches a GET for the
  best-bid-ask path of the market data with the query \<open>symbol=BTC-USD&symbol=ETH-USD\<close>; for
  every list the query is one \<open>symbol=\<close> parameter per element, in the order of the list,
  joined by \<open>&\<close>.
\<close>

theorem getBestBidAsk_two_symbols:
  "getBestBidAsk R w config (Some [''BTC-USD'', ''ETH-USD'']) =
     makeRequest R w config
       ''/api/v1/crypto/marketdata/best_bid_ask/?symbol=BTC-USD&symbol=ETH-USD'' ''GET'' None
   \<and> getBestBidAsk R w config (Some symbols) =
       makeRequest R w config
         (''/api/v1/crypto/marketdata/best_bid_ask/?'' @ join ''&'' (map (\<lambda>s. ''symbol='' @ s) symbols))
         ''GET'' None
   \<and> (length (base64_decode (privateKeyBase64 config)) = 64 \<longrightarrow>
        map (\<lambda>req. (url req, http_method req, body req))
          (fetch_calls (snd (getBestBidAsk R w config (Some [''BTC-USD'', ''ETH-USD''])))) =
        [(''https://trading.robinhood.com/api/v1/crypto/marketdata/best_bid_ask/?symbol=BTC-USD&symbol=ETH-USD'',
          ''GET'', None)])"
proof -
  have call: "getBestBidAsk R w config (Some [''BTC-USD'', ''ETH-USD'']) =
     makeRequest R w config
       ''/api/v1/crypto/marketdata/best_bid_ask/?symbol=BTC-USD&symbol=ETH-USD'' ''GET'' None"
    by (simp add: getBestBidAsk_def)
  have general: "getBestBidAsk R w config (Some symbols) =
       makeRequest R w config
         (''/api/v1/crypto/marketdata/best_bid_ask/?'' @ join ''&'' (map (\<lambda>s. ''symbol='' @ s) symbols))
         ''GET'' None"
    by (simp add: getBestBidAsk_def)
  have dispatched: "length (base64_decode (privateKeyBase64 config)) = 64 \<longrightarrow>
        map (\<lambda>req. (url req, http_method req, body req))
          (fetch_calls (snd (getBestBidAsk R w config (Some [''BTC-USD'', ''ETH-USD''])))) =
        [(''https://trading.robinhood.com/api/v1/crypto/marketdata/best_bid_ask/?symbol=BTC-USD&symbol=ETH-USD'',
          ''GET'', None)]"
    unfolding call by (simp add: makeRequest_dispatch baseUrl_def)
  from call general dispatched show ?thesis by blast
qed

theorem getBestBidAsk_two_symbols_witness:
  "length (base64_decode (privateKeyBase64 example_config)) = 64
   \<and> map (\<lambda>req. (url req, http_method req, body req))
         (fetch_calls (snd (getBestBidAsk example_runtime (example_world 200 ''ok'') example_config
            (Some [''BTC-USD'', ''ETH-USD''])))) =
       [(''https://trading.robinhood.com/api/v1/crypto/marketdata/best_bid_ask/?symbol=BTC-USD&symbol=ETH-USD'',
         ''GET'', None)]"
  using getBestBidAsk_two_symbols [of example_runtime "example_world 200 ''ok''" example_config]
    example_config_key
  by blast

text \<open>
  C10: with an empty list of symbols \<open>getBestBidAsk\<close> still dispatches a GET, for the path
  that ends in \<open>?\<close> with an empty query, while \<open>getOrders\<close> and \<open>getHoldings\<close> without
  filters, limit and cursor dispatch for their paths without any \<open>?\<close>.
\<close>

theorem empty_query_strings:
  "getBestBidAsk R w config (Some []) =
     makeRequest R w config ''/api/v1/crypto/marketdata/best_bid_ask/?'' ''GET'' None
   \<and> getOrders R w config None None None =
       makeRequest R w config ''/api/v1/crypto/trading/orders/'' ''GET'' None
   \<and> getHoldings R w config None None None =
       makeRequest R w config ''/api/v1/crypto/trading/holdings/'' ''GET'' None
   \<and> (length (base64_decode (privateKeyBase64 config)) = 64 \<longrightarrow>
        map (\<lambda>req. (url req, http_method req, body req))
          (fetch_calls (snd (getBestBidAsk R w config (Some [])))) =
        [(''https://trading.robinhood.com/api/v1/crypto/marketdata/best_bid_ask/?'', ''GET'', None)]
        \<and> map (\<lambda>req. (url req, http_method req, body req))
            (fetch_calls (snd (getOrders R w config None None None))) =
          [(''https://trading.robinhood.com/api/v1/crypto/trading/orders/'', ''GET'', None)]
        \<and> map (\<lambda>req. (url req, http_method req, body req))
            (fetch_calls (snd (getHoldings R w config None None None))) =
          [(''https://trading.robinhood.com/api/v1/crypto/trading/holdings/'', ''GET'', None)])"
proof -
  have bid: "getBestBidAsk R w config (Some []) =
     makeRequest R w config ''/api/v1/crypto/marketdata/best_bid_ask/?'' ''GET'' None"
    by (simp add: getBestBidAsk_def)
  have orders: "getOrders R w config None None None =
       makeRequest R w config ''/api/v1/crypto/trading/orders/'' ''GET'' None"
    by (simp add: getOrders_def)
  have holdings: "getHoldings R w config None None None =
       makeRequest R w config ''/api/v1/crypto/trading/holdings/'' ''GET'' None"
    by (simp add: getHoldings_def)
  show ?thesis
    unfolding bid orders holdings by (simp add: makeRequest_dispatch baseUrl_def)
qed

theorem empty_query_strings_witness:
  "length (base64_decode (privateKeyBase64 example_config)) = 64
   \<and> map url (fetch_calls (snd (getBestBidAsk example_runtime (example_world 200 ''ok'')
         example_config (Some [])))) =
       [''https://trading.robinhood.com/api/v1/crypto/marketdata/best_bid_ask/?'']
   \<and> map url (fetch_calls (snd (getOrders example_runtime (example_world 200 ''ok'')
         example_config None None None))) =
       [''https://trading.robinhood.com/api/v1/crypto/trading/orders/'']
   \<and> map url (fetch_calls (snd (getHoldings example_runtime (example_world 200 ''ok'')
         example_config None None None))) =
       [''https://trading.robinhood.com/api/v1/crypto/trading/holdings/'']"
proof -
  let ?w = "example_world 200 ''ok''"
  have urls: "map url reqs = map fst (map (\<lambda>req. (url req, http_method req, body req)) reqs)"
    for reqs :: "request list"
    by simp
  from empty_query_strings [of example_runtime ?w example_config] example_config_key
  have "map (\<lambda>req. (url req, http_method req, body req))
          (fetch_calls (snd (getBestBidAsk example_runtime ?w example_config (Some [])))) =
        [(''https://trading.robinhood.com/api/v1/crypto/marketdata/best_bid_ask/?'', ''GET'', None)]"
    and "map (\<lambda>req. (url req, http_method req, body req))
            (fetch_calls (snd (getOrders example_runtime ?w example_config None None None))) =
          [(''https://trading.robinhood.com/api/v1/crypto/trading/orders/'', ''GET'', None)]"
    and "map (\<lambda>req. (url req, http_method req, body req))
            (fetch_calls (snd (getHoldings example_runtime ?w example_config None None None))) =
          [(''https://trading.robinhood.com/api/v1/crypto/trading/holdings/'', ''GET'', None)]"
    by blast+
  then show ?thesis
    unfolding urls by (simp add: example_config_key)
qed

text \<open>
  C9: an optional parameter whose value is falsy is dropped as if it were absent. In
  \<open>getOrders\<close>, \<open>getTradingPairs\<close> and \<open>getHoldings\<close> a limit that \<open>ToBoolean\<close> takes to
  false (the number 0) and a cursor that is the empty string give the call of the omitted
  argument, and in \<open>getOrders\<close> a filter whose value is the empty string gives the call
  of the filters without it.
\<close>

theorem falsy_parameters_dropped:
  "\<not> number_toBoolean R zero \<Longrightarrow>
   getOrders R w config filters (Some zero) cursor = getOrders R w config filters None cursor
   \<and> getOrders R w config filters limit (Some []) = getOrders R w config filters limit None
   \<and> getOrders R w config (Some (fs @ [(k, Some [])] @ gs)) limit cursor =
       getOrders R w config (Some (fs @ gs)) limit cursor
   \<and> getTradingPairs R w config symbols (Some zero) cursor =
       getTradingPairs R w config symbols None cursor
   \<and> getTradingPairs R w config symbols limit (Some []) =
       getTradingPairs R w config symbols limit None
   \<and> getHoldings R w config assetCodes (Some zero) cursor =
       getHoldings R w config assetCodes None cursor
   \<and> getHoldings R w config assetCodes limit (Some []) =
       getHoldings R w config assetCodes limit None"
proof -
  assume zero: "\<not> number_toBoolean R zero"
  have fil: "push_filters [] (fs @ [(k, Some [])] @ gs) = push_filters [] (fs @ gs)"
    by (rule push_filters_empty_value)
  have 1: "getOrders R w config filters (Some zero) cursor = getOrders R w config filters None cursor"
    by (simp add: getOrders_def zero)
  have 2: "getOrders R w config filters limit (Some []) = getOrders R w config filters limit None"
    by (simp add: getOrders_def)
  have 3: "getOrders R w config (Some (fs @ [(k, Some [])] @ gs)) limit cursor =
       getOrders R w config (Some (fs @ gs)) limit cursor"
    by (simp only: getOrders_def option.case Let_def fil)
  have 4: "getTradingPairs R w config symbols (Some zero) cursor =
       getTradingPairs R w config symbols None cursor"
    by (simp add: getTradingPairs_def zero)
  have 5: "getTradingPairs R w config symbols limit (Some []) =
       getTradingPairs R w config symbols limit None"
    by (simp add: getTradingPairs_def)
  have 6: "getHoldings R w config assetCodes (Some zero) cursor =
       getHoldings R w config assetCodes None cursor"
    by (simp add: getHoldings_def zero)
  have 7: "getHoldings R w config assetCodes limit (Some []) =
       getHoldings R w config assetCodes limit None"
    by (simp add: getHoldings_def)
  from 1 2 3 4 5 6 7 show ?thesis by blast
qed

theorem falsy_parameters_dropped_witness:
  "\<not> number_toBoolean example_runtime 0
   \<and> getOrders example_runtime (example_world 200 ''ok'') example_config
        (Some [(''symbol'', Some ''BTC-USD''), (''side'', Some [])]) (Some 0) (Some []) =
       makeRequest example_runtime (example_world 200 ''ok'') example_config
         ''/api/v1/crypto/trading/orders/?symbol=BTC-USD'' ''GET'' None
   \<and> getTradingPairs example_runtime (example_world 200 ''ok'') example_config
        (Some [''BTC-USD'']) (Some 0) (Some []) =
       makeRequest example_runtime (example_world 200 ''ok'') example_config
         ''/api/v1/crypto/trading/trading_pairs/?symbol=BTC-USD'' ''GET'' None
   \<and> getHoldings example_runtime (example_world 200 ''ok'') example_config
        (Some [''BTC'']) (Some 0) (Some []) =
       makeRequest example_runtime (example_world 200 ''ok'') example_config
         ''/api/v1/crypto/trading/holdings/?asset_code=BTC'' ''GET'' None"
proof -
  let ?w = "example_world 200 ''ok''"
  have zero: "\<not> number_toBoolean example_runtime 0"
    by (simp add: example_runtime_def)
  note drop = falsy_parameters_dropped [OF zero, where w = ?w and config = example_config]
  have "getOrders example_runtime ?w example_config
        (Some ([(''symbol'', Some ''BTC-USD'')] @ [(''side'', Some [])] @ [])) (Some 0) (Some []) =
      getOrders example_runtime ?w example_config (Some ([(''symbol'', Some ''BTC-USD'')] @ [])) None None"
    using drop [where limit = None and cursor = None and fs = "[(''symbol'', Some ''BTC-USD'')]"
        and gs = "[]" and k = "''side''"]
      drop [where limit = "Some 0" and cursor = "Some []" and fs = "[(''symbol'', Some ''BTC-USD'')]"
        and gs = "[]" and k = "''side''"]
      drop [where filters = "Some ([(''symbol'', Some ''BTC-USD'')] @ [])" and limit = "Some 0"
        and cursor = None]
    by metis
  then have orders: "getOrders example_runtime ?w example_config
        (Some [(''symbol'', Some ''BTC-USD''), (''side'', Some [])]) (Some 0) (Some []) =
       makeRequest example_runtime ?w example_config
         ''/api/v1/crypto/trading/orders/?symbol=BTC-USD'' ''GET'' None"
    by (simp add: getOrders_def)
  have "getTradingPairs example_runtime ?w example_config (Some [''BTC-USD'']) (Some 0) (Some []) =
      getTradingPairs example_runtime ?w example_config (Some [''BTC-USD'']) None None"
    using drop [where symbols = "Some [''BTC-USD'']" and limit = "Some 0" and cursor = None]
      drop [where symbols = "Some [''BTC-USD'']" and limit = "Some 0" and cursor = "Some []"]
    by metis
  then have pairs: "getTradingPairs example_runtime ?w example_config
        (Some [''BTC-USD'']) (Some 0) (Some []) =
       makeRequest example_runtime ?w example_config
         ''/api/v1/crypto/trading/trading_pairs/?symbol=BTC-USD'' ''GET'' None"
    by (simp add: getTradingPairs_def)
  have "getHoldings example_runtime ?w example_config (Some [''BTC'']) (Some 0) (Some []) =
      getHoldings example_runtime ?w example_config (Some [''BTC'']) None None"
    using drop [where assetCodes = "Some [''BTC'']" and limit = "Some 0" and cursor = None]
      drop [where assetCodes = "Some [''BTC'']" and limit = "Some 0" and cursor = "Some []"]
    by metis
  then have holdings: "getHoldings example_runtime ?w example_config
        (Some [''BTC'']) (Some 0) (Some []) =
       makeRequest example_runtime ?w example_config
         ''/api/v1/crypto/trading/holdings/?asset_code=BTC'' ''GET'' None"
    by (simp add: getHoldings_def)
  from zero orders pairs holdings show ?thesis by blast
qed

subsection \<open>Malformed keys\<close>

lemma example_bad_key_invalid: "\<not> valid_base64 example_bad_key"
  by (simp add: valid_base64_def example_bad_key_def)

text \<open>
  C8, as the code has it: a private key that is not well-formed base64 is not refused.
  The decoder skips the foreign character, 64 bytes come out, and the request is signed
  and sent.
\<close>

theorem malformed_key_is_used_counterexample:
  "\<not> valid_base64 example_bad_key
   \<and> CHR ''!'' \<notin> set base64_alphabet
   \<and> CHR ''!'' \<in> set example_bad_key
   \<and> map url (fetch_calls (snd (getAccount example_runtime (example_world 200 ''ok'')
         (example_config\<lparr>privateKeyBase64 := example_bad_key\<rparr>)))) =
       [''https://trading.robinhood.com/api/v1/crypto/trading/accounts/'']
   \<and> fst (getAccount example_runtime (example_world 200 ''ok'')
         (example_config\<lparr>privateKeyBase64 := example_bad_key\<rparr>)) = Inr ''ok''"
proof -
  let ?config = "example_config\<lparr>privateKeyBase64 := example_bad_key\<rparr>"
  have key: "length (base64_decode (privateKeyBase64 ?config)) = 64"
    by (simp add: example_bad_key_length)
  have foreign: "CHR ''!'' \<notin> set base64_alphabet" "CHR ''!'' \<in> set example_bad_key"
    by (simp_all add: base64_alphabet_def example_bad_key_def)
  have calls: "map url (fetch_calls (snd (getAccount example_runtime (example_world 200 ''ok'')
      ?config))) = [''https://trading.robinhood.com/api/v1/crypto/trading/accounts/'']"
    unfolding getAccount_def
    by (simp add: makeRequest_fetch_calls signRequest_good_key [OF key] requestOptions_def baseUrl_def)
  have result: "fst (getAccount example_runtime (example_world 200 ''ok'') ?config) = Inr ''ok''"
    unfolding getAccount_def
    by (subst makeRequest_signed [OF signRequest_good_key [OF key]])
      (simp add: example_world_def ok_def)
  from example_bad_key_invalid foreign calls result show ?thesis by blast
qed

text \<open>
  C8, amended: if the private key, decoded in the way of \<open>Buffer\<close>, does not have the 64
  bytes of a secret key, then every operation fails with the error
  \<open>bad secret key size\<close> of the signing step, and it fails before any network activity:
  no request is handed to \<open>fetch\<close> and nothing is logged.
\<close>

theorem bad_key_size_aborts:
  "length (base64_decode (privateKeyBase64 config)) \<noteq> 64 \<Longrightarrow>
   getBestBidAsk R w config symbols = (Inl (Error ''bad secret key size''), [])
   \<and> getEstimatedPrice R w config symbol side quantities = (Inl (Error ''bad secret key size''), [])
   \<and> getTradingPairs R w config symbols limit cursor = (Inl (Error ''bad secret key size''), [])
   \<and> placeOrder R w config order = (Inl (Error ''bad secret key size''), [])
   \<and> getOrder R w config orderId = (Inl (Error ''bad secret key size''), [])
   \<and> cancelOrder R w config orderId = (Inl (Error ''bad secret key size''), [])
   \<and> getOrders R w config filters limit cursor = (Inl (Error ''bad secret key size''), [])
   \<and> getAccount R w config = (Inl (Error ''bad secret key size''), [])
   \<and> getHoldings R w config assetCodes limit cursor = (Inl (Error ''bad secret key size''), [])"
proof -
  assume "length (base64_decode (privateKeyBase64 config)) \<noteq> 64"
  then have abort: "makeRequest R w config path meth body_arg = (Inl (Error ''bad secret key size''), [])"
    for path meth body_arg
    by (rule makeRequest_bad_key)
  show ?thesis
    by (simp add: getBestBidAsk_def getEstimatedPrice_def getTradingPairs_def placeOrder_def
        getOrder_def cancelOrder_def getOrders_def getAccount_def getHoldings_def Let_def abort)
qed

theorem bad_key_size_aborts_witness:
  "length (base64_decode (privateKeyBase64 test_config)) \<noteq> 64
   \<and> getAccount example_runtime (example_world 200 ''ok'') test_config =
       (Inl (Error ''bad secret key size''), [])
   \<and> getHoldings example_runtime (example_world 200 ''ok'') test_config None None None =
       (Inl (Error ''bad secret key size''), [])
   \<and> placeOrder example_runtime (example_world 200 ''ok'') test_config example_order =
       (Inl (Error ''bad secret key size''), [])"
proof -
  have key: "length (base64_decode (privateKeyBase64 test_config)) \<noteq> 64"
    by (simp add: test_config_def test_key_length)
  from bad_key_size_aborts [OF key, of example_runtime "example_world 200 ''ok''"] key
  show ?thesis by blast
qed

end
